theory Spec2Isabelle
  imports Complex_Main
begin

section \<open>Sinkhorn divergence (\<^verbatim>\<open>ott/core/sinkhorn_divergence.py\<close>)\<close>

text \<open>
  Conventions of the embedding.
  \<^item> A Python value that may be \<^verbatim>\<open>None\<close> is an \<open>option\<close>.
  \<^item> A raised exception is the \<open>Inl\<close> branch of a sum; the first exception raised ends the
    call, as in Python.
  \<^item> Arrays (\<^verbatim>\<open>np.ndarray\<close>) are values of a type variable \<open>'arr\<close>, geometries of a type
    variable \<open>'geom\<close>: the functions below only pass them on.
  \<^item> Scalars of the cost are real numbers: the arithmetic of line 92 is read over the reals,
    rounding of the floating-point unit is not part of the model.
  \<^item> Keyword arguments (\<^verbatim>\<open>**kwargs\<close>) are a dictionary with string keys.
\<close>

datatype error = TypeError | IndexError | Raised string

type_synonym 'val kwargs = "string \<rightharpoonup> 'val"

text \<open>
  Modelled from the spec: the named tuple \<^verbatim>\<open>sinkhorn.SinkhornOutput\<close> is declared in
  \<^verbatim>\<open>ott/core/sinkhorn.py\<close>, which is not among the sources. The spec's SolverOutput bundles
  the final potentials, the regularized OT cost and the error trace; the divergence reads
  the fields \<^verbatim>\<open>f\<close>, \<^verbatim>\<open>g\<close>, \<^verbatim>\<open>reg_ot_cost\<close>, \<^verbatim>\<open>errors\<close> and builds the
  placeholder positionally as \<^verbatim>\<open>SinkhornOutput(None, None, 0, None)\<close>, the number in the
  third place being the cost that line 92 adds up.
\<close>

record 'arr SinkhornOutput =
  f :: "'arr option"
  g :: "'arr option"
  reg_ot_cost :: real
  errors :: "'arr option"

text \<open>
  The solver \<^verbatim>\<open>sinkhorn.sinkhorn(geom, a, b, **kwargs)\<close> is not among the sources either: it is
  a parameter of everything below, any function from its four arguments to an output or an
  exception.
\<close>

type_synonym ('geom, 'arr, 'val) solver =
  "'geom \<Rightarrow> 'arr \<Rightarrow> 'arr \<Rightarrow> 'val kwargs \<Rightarrow> error + 'arr SinkhornOutput"

text \<open>
  \<^verbatim>\<open>SinkhornDivergence = collections.namedtuple('SinkhornDivergence',
       ['divergence', 'potentials', 'geoms', 'errors'])\<close>
  Tuples are lists here; each entry of \<open>potentials\<close> is the two-element list
  \<^verbatim>\<open>[s.f, s.g]\<close>.
\<close>

record ('geom, 'arr) SinkhornDivergence =
  divergence :: real
  potentials :: "'arr option list list"
  geoms :: "'geom option list"
  errors :: "'arr option list"

text \<open>
  Lines 87--91, the list comprehension
  \<^verbatim>\<open>[SinkhornOutput(None, None, 0, None) if geom is None
    else sinkhorn.sinkhorn(geom, marginals[0], marginals[1], **kwargs)
    for (geom, marginals) in zip(geoms, [[a, b], [a, a], [b, b]])]\<close>
  as its element expression \<open>solve_term\<close> and the loop \<open>solve_terms\<close> over an already zipped
  list, in order. Every \<open>marginals\<close> the loop meets is one of the three two-element
  literals, so both indices are in range.
\<close>

definition solve_term ::
  "('geom, 'arr, 'val) solver \<Rightarrow> 'geom option \<Rightarrow> 'arr list \<Rightarrow> 'val kwargs
     \<Rightarrow> error + 'arr SinkhornOutput" where
  "solve_term sinkhorn geom marginals kwargs =
     (case geom of
        None \<Rightarrow> Inr \<lparr>f = None, g = None, reg_ot_cost = 0, SinkhornOutput.errors = None\<rparr>
      | Some ge \<Rightarrow> sinkhorn ge (marginals ! 0) (marginals ! 1) kwargs)"

fun solve_terms ::
  "('geom, 'arr, 'val) solver \<Rightarrow> ('geom option \<times> 'arr list) list \<Rightarrow> 'val kwargs
     \<Rightarrow> error + 'arr SinkhornOutput list" where
  "solve_terms sinkhorn [] kwargs = Inr []"
| "solve_terms sinkhorn ((geom, marginals) # rest) kwargs =
     (case solve_term sinkhorn geom marginals kwargs of
        Inl e \<Rightarrow> Inl e
      | Inr s \<Rightarrow>
          (case solve_terms sinkhorn rest kwargs of
             Inl e \<Rightarrow> Inl e
           | Inr out \<Rightarrow> Inr (s # out)))"

text \<open>Lines 86--94. The list \<open>out\<close> has three entries whenever it exists.\<close>

definition sinkhorn_divergence ::
  "('geom, 'arr, 'val) solver \<Rightarrow> 'geom option \<Rightarrow> 'geom option \<Rightarrow> 'geom option
     \<Rightarrow> 'arr \<Rightarrow> 'arr \<Rightarrow> 'val kwargs \<Rightarrow> error + ('geom, 'arr) SinkhornDivergence" where
  "sinkhorn_divergence sinkhorn geometry_xy geometry_xx geometry_yy a b kwargs =
     (let geoms = [geometry_xy, geometry_xx, geometry_yy] in
      case solve_terms sinkhorn (zip geoms [[a, b], [a, a], [b, b]]) kwargs of
        Inl e \<Rightarrow> Inl e
      | Inr out \<Rightarrow>
          (let dv = reg_ot_cost (out ! 0)
                      - 0.5 * (reg_ot_cost (out ! 1) + reg_ot_cost (out ! 2))
           in Inr \<lparr>divergence = dv,
                   potentials = map (\<lambda>s. [f s, g s]) out,
                   geoms = geoms,
                   errors = map SinkhornOutput.errors out\<rparr>))"

text \<open>
  Lines 56--59. \<^verbatim>\<open>geom.prepare_divergences\<close> belongs to the geometry classes, which are not
  among the sources: it is a parameter, returning a tuple of geometries or raising.
  The call \<^verbatim>\<open>sinkhorn_divergence(*geometries, a, b, **div_kwargs)\<close> binds five positional
  parameters; Python raises \<^verbatim>\<open>TypeError\<close> when the unpacked tuple does not have three
  entries, and when \<^verbatim>\<open>div_kwargs\<close> names one of the five positional parameters again.
\<close>

definition positional_names :: "string list" where
  "positional_names = [''geometry_xy'', ''geometry_xx'', ''geometry_yy'', ''a'', ''b'']"

definition call_sinkhorn_divergence ::
  "('geom, 'arr, 'val) solver \<Rightarrow> 'geom option list \<Rightarrow> 'arr \<Rightarrow> 'arr \<Rightarrow> 'val kwargs
     \<Rightarrow> error + ('geom, 'arr) SinkhornDivergence" where
  "call_sinkhorn_divergence sinkhorn geometries a b div_kwargs =
     (case geometries of
        [geometry_xy, geometry_xx, geometry_yy] \<Rightarrow>
          if list_ex (\<lambda>k. div_kwargs k \<noteq> None) positional_names then Inl TypeError
          else sinkhorn_divergence sinkhorn geometry_xy geometry_xx geometry_yy a b div_kwargs
      | _ \<Rightarrow> Inl TypeError)"

definition sinkhorn_divergence_wrapper ::
  "('geom, 'arr, 'val) solver \<Rightarrow> ('args \<Rightarrow> bool \<Rightarrow> 'gkw \<Rightarrow> error + 'geom option list)
     \<Rightarrow> 'arr \<Rightarrow> 'arr \<Rightarrow> 'args \<Rightarrow> 'val kwargs option \<Rightarrow> bool \<Rightarrow> 'gkw
     \<Rightarrow> error + ('geom, 'arr) SinkhornDivergence" where
  "sinkhorn_divergence_wrapper sinkhorn prepare_divergences a b args sinkhorn_kwargs static_b kwargs =
     (case prepare_divergences args static_b kwargs of
        Inl e \<Rightarrow> Inl e
      | Inr geometries0 \<Rightarrow>
          (let geometries =
                 take 3 (geometries0
                           @ replicate (nat (max 0 (3 - int (length geometries0)))) None);
               div_kwargs = (case sinkhorn_kwargs of None \<Rightarrow> Map.empty | Some d \<Rightarrow> d)
           in call_sinkhorn_divergence sinkhorn geometries a b div_kwargs))"

section \<open>The regularized OT cost of a Sinkhorn solve\<close>

text \<open>
  The solver (\<^verbatim>\<open>ott/core/sinkhorn.py\<close>) and the geometries (\<^verbatim>\<open>ott/core/ground_geometry\<close>)
  are not among the sources. This section models the solver as the spec describes it:
  the balanced case (\<^verbatim>\<open>tau_a = tau_b = 1\<close>; the spec gives no formula for the relaxed
  update), iterating on the potentials in the log domain, over the reals. Weights,
  potentials and point sets are lists, and a matrix is the function of its two indices.
  The updates take the logarithm of each weight, so the model is meant for positive
  weights: the potential of a zero weight is not a real number.
\<close>


text \<open>
  Modelled from the spec: the coupling that a pair of potentials induces is not among
  the sources. It is \<^verbatim>\<open>P = diag(exp(f/eps)) K diag(exp(g/eps))\<close> with the kernel
  \<^verbatim>\<open>K = exp(-C/eps)\<close>; \<open>phi\<close> and \<open>psi\<close> are the potentials \<^verbatim>\<open>f\<close> and \<^verbatim>\<open>g\<close>.
\<close>

definition coupling ::
  "real \<Rightarrow> (nat \<Rightarrow> nat \<Rightarrow> real) \<Rightarrow> real list \<Rightarrow> real list \<Rightarrow> nat \<Rightarrow> nat \<Rightarrow> real" where
  "coupling eps C phi psi i j = exp (phi ! i / eps) * exp (- C i j / eps) * exp (psi ! j / eps)"


text \<open>
  Modelled from the spec: the solver's error estimate is not among the sources. It is the
  marginal violation, the L1 distance between the marginals of the coupling (its row
  sums and its column sums) and the targets \<open>a\<close> and \<open>b\<close>.
\<close>

definition marginal_error ::
  "real \<Rightarrow> (nat \<Rightarrow> nat \<Rightarrow> real) \<Rightarrow> real list \<Rightarrow> real list \<Rightarrow> real list \<Rightarrow> real list
     \<Rightarrow> real" where
  "marginal_error eps C a b phi psi =
     (\<Sum>i<length a. \<bar>(\<Sum>j<length b. coupling eps C phi psi i j) - a ! i\<bar>)
     + (\<Sum>j<length b. \<bar>(\<Sum>i<length a. coupling eps C phi psi i j) - b ! j\<bar>)"

text \<open>
  Modelled from the spec: the two half steps of the iteration are not among the sources.
  \<open>update_g\<close> resets \<^verbatim>\<open>g\<close> from the current \<^verbatim>\<open>f\<close> so that the column sums of the coupling
  are \<open>b\<close>; \<open>update_f\<close> resets \<^verbatim>\<open>f\<close> from \<^verbatim>\<open>g\<close> so that its row sums are \<open>a\<close>: the closed
  form of the normalization in the log domain.
\<close>

definition update_g ::
  "real \<Rightarrow> (nat \<Rightarrow> nat \<Rightarrow> real) \<Rightarrow> real list \<Rightarrow> real list \<Rightarrow> real list \<Rightarrow> real list" where
  "update_g eps C a b phi =
     map (\<lambda>j. eps * (ln (b ! j) - ln (\<Sum>i<length a. exp ((phi ! i - C i j) / eps))))
       [0..<length b]"

definition update_f ::
  "real \<Rightarrow> (nat \<Rightarrow> nat \<Rightarrow> real) \<Rightarrow> real list \<Rightarrow> real list \<Rightarrow> real list \<Rightarrow> real list" where
  "update_f eps C a b psi =
     map (\<lambda>i. eps * (ln (a ! i) - ln (\<Sum>j<length b. exp ((psi ! j - C i j) / eps))))
       [0..<length a]"




section \<open>Plotting utilities (\<^verbatim>\<open>ott/tools/plot.py\<close>)\<close>

text \<open>
  The array library and the sparse SVD of lines 41--47 are not code of this repository:
  they are the fields of a record that the model takes as a parameter. \<open>shape\<close> is
  \<^verbatim>\<open>x.shape\<close>, \<open>concatenate\<close> is \<^verbatim>\<open>jnp.concatenate(arrays, axis)\<close>, \<open>svds\<close> is
  \<^verbatim>\<open>scipy.sparse.linalg.svds(m, k)\<close>, \<open>multiply\<close> the broadcasting product \<^verbatim>\<open>u * s\<close>,
  \<open>rows_to\<close> and \<open>rows_from\<close> the slices \<^verbatim>\<open>proj[:k]\<close> and \<^verbatim>\<open>proj[k:]\<close>.
\<close>

record 'arr numpy =
  shape :: "'arr \<Rightarrow> nat list"
  concatenate :: "'arr list \<Rightarrow> nat \<Rightarrow> error + 'arr"
  svds :: "'arr \<Rightarrow> nat \<Rightarrow> error + ('arr \<times> 'arr \<times> 'arr)"
  multiply :: "'arr \<Rightarrow> 'arr \<Rightarrow> error + 'arr"
  rows_to :: "'arr \<Rightarrow> nat \<Rightarrow> 'arr"
  rows_from :: "'arr \<Rightarrow> nat \<Rightarrow> 'arr"

text \<open>
  Lines 39--47. \<^verbatim>\<open>x.shape[1]\<close> raises \<^verbatim>\<open>IndexError\<close> on an array with fewer than two
  axes; past that test \<^verbatim>\<open>x.shape[0]\<close> exists.
\<close>

definition bidimensional :: "'arr numpy \<Rightarrow> 'arr \<Rightarrow> 'arr \<Rightarrow> error + ('arr \<times> 'arr)" where
  "bidimensional np x y =
     (if length (shape np x) \<le> 1 then Inl IndexError
      else if shape np x ! 1 < 3 then Inr (x, y)
      else
        (case concatenate np [x, y] 0 of
           Inl e \<Rightarrow> Inl e
         | Inr xy \<Rightarrow>
             (case svds np xy 2 of
                Inl e \<Rightarrow> Inl e
              | Inr (u, s, vt) \<Rightarrow>
                  (case multiply np u s of
                     Inl e \<Rightarrow> Inl e
                   | Inr proj \<Rightarrow>
                       (let k = shape np x ! 0
                        in Inr (rows_to np proj k, rows_from np proj k))))))"

text \<open>
  Lines 133--151. \<^verbatim>\<open>warnings.warn\<close>, \<^verbatim>\<open>Image.open\<close> and \<^verbatim>\<open>Image.save\<close> act on the world
  outside the program (the warning machinery, the file system): each is a function from
  the world before the call to its outcome and the world after it, and the three are the
  fields of a record that the model takes as a parameter. The module-level flag
  \<^verbatim>\<open>PIL_is_importable\<close>, set once at import, is a parameter too.
\<close>

datatype category = RuntimeWarning

record 'img save_kwargs =
  fp :: string
  save_all :: bool
  append_images :: "'img list"
  duration :: int
  loop :: int

type_synonym ('a, 'w) io = "'w \<Rightarrow> (error + 'a) \<times> 'w"

record ('img, 'w) externals =
  warnings_warn :: "string \<Rightarrow> category \<Rightarrow> (unit, 'w) io"
  Image_open :: "string \<Rightarrow> ('img, 'w) io"
  Image_save :: "'img \<Rightarrow> 'img save_kwargs \<Rightarrow> (unit, 'w) io"

text \<open>Line 144, \<^verbatim>\<open>[Image.open(image_fn) for image_fn in image_fns]\<close>, in order.\<close>

fun open_images :: "('img, 'w) externals \<Rightarrow> string list \<Rightarrow> ('img list, 'w) io" where
  "open_images ext [] w = (Inr [], w)"
| "open_images ext (image_fn # image_fns) w =
     (case Image_open ext image_fn w of
        (Inl e, w1) \<Rightarrow> (Inl e, w1)
      | (Inr im, w1) \<Rightarrow>
          (case open_images ext image_fns w1 of
             (Inl e, w2) \<Rightarrow> (Inl e, w2)
           | (Inr images, w2) \<Rightarrow> (Inr (im # images), w2)))"

text \<open>
  \<^verbatim>\<open>images[0]\<close> raises \<^verbatim>\<open>IndexError\<close> on the empty list; \<^verbatim>\<open>images[1:]\<close> is \<open>drop 1\<close>.
  The function returns \<^verbatim>\<open>None\<close> on both paths: the value of a call that returns is \<open>()\<close>.
\<close>

definition animate ::
  "bool \<Rightarrow> ('img, 'w) externals \<Rightarrow> string list \<Rightarrow> string \<Rightarrow> int \<Rightarrow> int \<Rightarrow> (unit, 'w) io" where
  "animate PIL_is_importable ext image_fns gif_fn duration_arg loop_arg w =
     (if \<not> PIL_is_importable then
        warnings_warn ext ''Pillow was not imported successfully. Doing nothing instead.''
          RuntimeWarning w
      else
        (case open_images ext image_fns w of
           (Inl e, w1) \<Rightarrow> (Inl e, w1)
         | (Inr images, w1) \<Rightarrow>
             if images = [] then (Inl IndexError, w1)
             else Image_save ext (images ! 0)
                    \<lparr>fp = gif_fn, save_all = True, append_images = drop 1 images,
                     duration = duration_arg, loop = 0\<rparr> w1))"

section \<open>Properties of the divergence\<close>

lemma sinkhorn_divergence_unfold:
  "sinkhorn_divergence sinkhorn gxy gxx gyy a b kwargs =
     (case solve_term sinkhorn gxy [a, b] kwargs of
        Inl e \<Rightarrow> Inl e
      | Inr s0 \<Rightarrow>
          (case solve_term sinkhorn gxx [a, a] kwargs of
             Inl e \<Rightarrow> Inl e
           | Inr s1 \<Rightarrow>
               (case solve_term sinkhorn gyy [b, b] kwargs of
                  Inl e \<Rightarrow> Inl e
                | Inr s2 \<Rightarrow>
                    Inr \<lparr>divergence = reg_ot_cost s0 - (reg_ot_cost s1 + reg_ot_cost s2) / 2,
                         potentials = [[f s0, g s0], [f s1, g s1], [f s2, g s2]],
                         geoms = [gxy, gxx, gyy],
                         errors = [SinkhornOutput.errors s0, SinkhornOutput.errors s1,
                                   SinkhornOutput.errors s2]\<rparr>)))"
  by (simp add: sinkhorn_divergence_def split: sum.splits)

lemma solve_term_Some [simp]:
  "solve_term sinkhorn (Some ge) [x, y] kwargs = sinkhorn ge x y kwargs"
  by (simp add: solve_term_def)

lemma solve_term_None [simp]:
  "solve_term sinkhorn None marginals kwargs =
     Inr \<lparr>f = None, g = None, reg_ot_cost = 0, SinkhornOutput.errors = None\<rparr>"
  by (simp add: solve_term_def)

lemma solve_terms_length:
  "solve_terms sinkhorn zs kwargs = Inr out \<Longrightarrow> length out = length zs"
proof (induction zs arbitrary: out)
  case Nil
  then show ?case by simp
next
  case (Cons z zs)
  obtain geom marginals where z: "z = (geom, marginals)"
    by (cases z)
  from Cons.prems obtain s rest where
    out: "out = s # rest" and rest: "solve_terms sinkhorn zs kwargs = Inr rest"
    unfolding z by (auto split: sum.splits)
  from Cons.IH [OF rest] out show ?case
    by simp
qed

text \<open>
  C1. When the three solves return, on geometries XY, XX and YY, \<open>sinkhorn_divergence\<close>
  returns, and the divergence of its result is the regularized OT cost of the XY solve
  minus one half of the sum of the costs of the XX and the YY solve.
\<close>

theorem divergence_formula:
  assumes "sinkhorn gxy a b kwargs = Inr s0"
    and "sinkhorn gxx a a kwargs = Inr s1"
    and "sinkhorn gyy b b kwargs = Inr s2"
  shows "\<exists>r. sinkhorn_divergence sinkhorn (Some gxy) (Some gxx) (Some gyy) a b kwargs = Inr r
           \<and> divergence r = reg_ot_cost s0 - (reg_ot_cost s1 + reg_ot_cost s2) / 2"
  using assms by (simp add: sinkhorn_divergence_unfold)

theorem divergence_formula_witness:
  "\<exists>r. sinkhorn_divergence
          (\<lambda>ge x y kw. Inr \<lparr>f = Some x, g = Some y, reg_ot_cost = ge,
                             SinkhornOutput.errors = None\<rparr>)
          (Some 7) (Some 2) (Some 4) (1::nat) 2 (Map.empty :: string \<rightharpoonup> real) = Inr r
        \<and> divergence r = 4"
  using divergence_formula
    [of "\<lambda>ge x y kw. Inr \<lparr>f = Some x, g = Some y, reg_ot_cost = ge,
                             SinkhornOutput.errors = None\<rparr>"
        7 "1::nat" 2 "Map.empty :: string \<rightharpoonup> real"
        "\<lparr>f = Some 1, g = Some 2, reg_ot_cost = 7, SinkhornOutput.errors = None\<rparr>"
        2 "\<lparr>f = Some 1, g = Some 1, reg_ot_cost = 2, SinkhornOutput.errors = None\<rparr>"
        4 "\<lparr>f = Some 2, g = Some 2, reg_ot_cost = 4, SinkhornOutput.errors = None\<rparr>"]
  by simp

lemma sinkhorn_divergence_returns:
  assumes "solve_term sinkhorn gxy [a, b] kwargs = Inr s0"
    and "solve_term sinkhorn gxx [a, a] kwargs = Inr s1"
    and "solve_term sinkhorn gyy [b, b] kwargs = Inr s2"
  shows "\<exists>r. sinkhorn_divergence sinkhorn gxy gxx gyy a b kwargs = Inr r"
  using assms by (simp add: sinkhorn_divergence_unfold)

lemma sinkhorn_divergence_InrD:
  assumes "sinkhorn_divergence sinkhorn gxy gxx gyy a b kwargs = Inr r"
  obtains s0 s1 s2 where
    "solve_term sinkhorn gxy [a, b] kwargs = Inr s0"
    "solve_term sinkhorn gxx [a, a] kwargs = Inr s1"
    "solve_term sinkhorn gyy [b, b] kwargs = Inr s2"
    "r = \<lparr>divergence = reg_ot_cost s0 - (reg_ot_cost s1 + reg_ot_cost s2) / 2,
          potentials = [[f s0, g s0], [f s1, g s1], [f s2, g s2]],
          geoms = [gxy, gxx, gyy],
          errors = [SinkhornOutput.errors s0, SinkhornOutput.errors s1,
                    SinkhornOutput.errors s2]\<rparr>"
  using assms unfolding sinkhorn_divergence_unfold
  by (auto split: sum.splits)



lemma pad_count: "nat (max 0 (3 - int n)) = 3 - n"
  by arith

lemma padded_eq:
  "take 3 (gs @ replicate (nat (max 0 (3 - int (length gs)))) None)
     = take 3 gs @ replicate (3 - length gs) None"
  by (simp add: pad_count)

lemma padded_length:
  "length (take 3 (gs @ replicate (nat (max 0 (3 - int (length gs)))) None)) = 3"
  by (simp add: pad_count)

lemma length_three_cases:
  assumes "length xs = 3"
  obtains x0 x1 x2 where "xs = [x0, x1, x2]"
  using assms by (auto simp: length_Suc_conv numeral_3_eq_3)

lemma call_sinkhorn_divergence_InrD:
  assumes "call_sinkhorn_divergence sinkhorn geometries a b div_kwargs = Inr r"
  obtains gxy gxx gyy where "geometries = [gxy, gxx, gyy]"
    "sinkhorn_divergence sinkhorn gxy gxx gyy a b div_kwargs = Inr r"
  using assms unfolding call_sinkhorn_divergence_def
  by (auto split: list.splits if_splits)

lemma wrapper_slots:
  assumes "sinkhorn_divergence_wrapper sinkhorn prepare_divergences a b args
             sinkhorn_kwargs static_b kwargs = Inr r"
  shows "\<exists>gs. prepare_divergences args static_b kwargs = Inr gs
           \<and> geoms r = take 3 gs @ replicate (3 - length gs) None
           \<and> length (geoms r) = 3
           \<and> length (potentials r) = 3
           \<and> (\<forall>p \<in> set (potentials r). length p = 2)
           \<and> length (errors r) = 3"
proof -
  from assms obtain gs where
    gs: "prepare_divergences args static_b kwargs = Inr gs" and
    call: "call_sinkhorn_divergence sinkhorn
             (take 3 (gs @ replicate (nat (max 0 (3 - int (length gs)))) None)) a b
             (case sinkhorn_kwargs of None \<Rightarrow> Map.empty | Some d \<Rightarrow> d) = Inr r"
    unfolding sinkhorn_divergence_wrapper_def by (auto split: sum.splits simp: Let_def)
  from call obtain gxy gxx gyy where
    three: "take 3 (gs @ replicate (nat (max 0 (3 - int (length gs)))) None) = [gxy, gxx, gyy]"
    and dv: "sinkhorn_divergence sinkhorn gxy gxx gyy a b
              (case sinkhorn_kwargs of None \<Rightarrow> Map.empty | Some d \<Rightarrow> d) = Inr r"
    by (rule call_sinkhorn_divergence_InrD)
  from dv obtain s0 s1 s2 where
    "solve_term sinkhorn gxy [a, b] (case sinkhorn_kwargs of None \<Rightarrow> Map.empty | Some d \<Rightarrow> d) = Inr s0"
    "solve_term sinkhorn gxx [a, a] (case sinkhorn_kwargs of None \<Rightarrow> Map.empty | Some d \<Rightarrow> d) = Inr s1"
    "solve_term sinkhorn gyy [b, b] (case sinkhorn_kwargs of None \<Rightarrow> Map.empty | Some d \<Rightarrow> d) = Inr s2" and
    r: "r = \<lparr>divergence = reg_ot_cost s0 - (reg_ot_cost s1 + reg_ot_cost s2) / 2,
          potentials = [[f s0, g s0], [f s1, g s1], [f s2, g s2]],
          geoms = [gxy, gxx, gyy],
          errors = [SinkhornOutput.errors s0, SinkhornOutput.errors s1,
                    SinkhornOutput.errors s2]\<rparr>"
    by (rule sinkhorn_divergence_InrD)
  have "geoms r = take 3 gs @ replicate (3 - length gs) None"
    using three by (simp only: r padded_eq [symmetric]) simp
  with gs show ?thesis
    by (simp add: r)
qed

lemma wrapper_returns:
  assumes "prepare_divergences args static_b kwargs = Inr gs"
    and "\<not> list_ex (\<lambda>k. (case sinkhorn_kwargs of None \<Rightarrow> Map.empty | Some d \<Rightarrow> d) k \<noteq> None)
             positional_names"
    and "\<And>ge x y. \<exists>s. sinkhorn ge x y
             (case sinkhorn_kwargs of None \<Rightarrow> Map.empty | Some d \<Rightarrow> d) = Inr s"
  shows "\<exists>r. sinkhorn_divergence_wrapper sinkhorn prepare_divergences a b args
             sinkhorn_kwargs static_b kwargs = Inr r"
proof -
  let ?dk = "case sinkhorn_kwargs of None \<Rightarrow> Map.empty | Some d \<Rightarrow> d"
  let ?gs = "take 3 (gs @ replicate (nat (max 0 (3 - int (length gs)))) None)"
  have "length ?gs = 3"
    by (rule padded_length)
  then obtain gxy gxx gyy where three: "?gs = [gxy, gxx, gyy]"
    by (rule length_three_cases)
  have each: "\<exists>s. solve_term sinkhorn ge m ?dk = Inr s" for ge m
    using assms(3) by (cases ge) (auto simp: solve_term_def)
  obtain s0 s1 s2 where
    "solve_term sinkhorn gxy [a, b] ?dk = Inr s0"
    "solve_term sinkhorn gxx [a, a] ?dk = Inr s1"
    "solve_term sinkhorn gyy [b, b] ?dk = Inr s2"
    using each by metis
  then obtain r where "sinkhorn_divergence sinkhorn gxy gxx gyy a b ?dk = Inr r"
    using sinkhorn_divergence_returns by metis
  then have "call_sinkhorn_divergence sinkhorn ?gs a b ?dk = Inr r"
    using assms(2) by (simp only: three call_sinkhorn_divergence_def list.case if_False)
  then show ?thesis
    using assms(1) by (simp add: sinkhorn_divergence_wrapper_def Let_def)
qed

text \<open>
  C3. Let \<open>prepare_divergences\<close> return a tuple \<open>gs\<close> of any length, shorter or longer than
  three. Every result of \<open>sinkhorn_divergence_wrapper\<close> then has exactly three geometry
  slots (the first three entries of \<open>gs\<close>, the missing ones \<^verbatim>\<open>None\<close>), exactly three
  potential pairs and exactly three error traces; and the wrapper does return a result
  when the solver returns under the given configuration and \<^verbatim>\<open>sinkhorn_kwargs\<close> names none
  of the positional parameters: the length of \<open>gs\<close> never makes the call fail.
\<close>

theorem wrapper_three_slots:
  assumes "prepare_divergences args static_b kwargs = Inr gs"
  shows "(\<forall>r. sinkhorn_divergence_wrapper sinkhorn prepare_divergences a b args
                sinkhorn_kwargs static_b kwargs = Inr r \<longrightarrow>
              geoms r = take 3 gs @ replicate (3 - length gs) None
              \<and> length (geoms r) = 3
              \<and> length (potentials r) = 3
              \<and> (\<forall>p \<in> set (potentials r). length p = 2)
              \<and> length (errors r) = 3)
       \<and> (\<not> list_ex (\<lambda>k. (case sinkhorn_kwargs of None \<Rightarrow> Map.empty | Some d \<Rightarrow> d) k \<noteq> None)
               positional_names
           \<and> (\<forall>ge x y. \<exists>s. sinkhorn ge x y
                 (case sinkhorn_kwargs of None \<Rightarrow> Map.empty | Some d \<Rightarrow> d) = Inr s)
           \<longrightarrow> (\<exists>r. sinkhorn_divergence_wrapper sinkhorn prepare_divergences a b args
                      sinkhorn_kwargs static_b kwargs = Inr r))"
proof (rule conjI)
  show "\<forall>r. sinkhorn_divergence_wrapper sinkhorn prepare_divergences a b args
                sinkhorn_kwargs static_b kwargs = Inr r \<longrightarrow>
              geoms r = take 3 gs @ replicate (3 - length gs) None
              \<and> length (geoms r) = 3
              \<and> length (potentials r) = 3
              \<and> (\<forall>p \<in> set (potentials r). length p = 2)
              \<and> length (errors r) = 3"
  proof (intro allI impI)
    fix r
    assume "sinkhorn_divergence_wrapper sinkhorn prepare_divergences a b args
              sinkhorn_kwargs static_b kwargs = Inr r"
    from wrapper_slots [OF this] assms
    show "geoms r = take 3 gs @ replicate (3 - length gs) None
          \<and> length (geoms r) = 3
          \<and> length (potentials r) = 3
          \<and> (\<forall>p \<in> set (potentials r). length p = 2)
          \<and> length (errors r) = 3"
      by auto
  qed
next
  show "\<not> list_ex (\<lambda>k. (case sinkhorn_kwargs of None \<Rightarrow> Map.empty | Some d \<Rightarrow> d) k \<noteq> None)
               positional_names
           \<and> (\<forall>ge x y. \<exists>s. sinkhorn ge x y
                 (case sinkhorn_kwargs of None \<Rightarrow> Map.empty | Some d \<Rightarrow> d) = Inr s)
           \<longrightarrow> (\<exists>r. sinkhorn_divergence_wrapper sinkhorn prepare_divergences a b args
                      sinkhorn_kwargs static_b kwargs = Inr r)"
  proof (intro impI, elim conjE)
    assume free: "\<not> list_ex
        (\<lambda>k. (case sinkhorn_kwargs of None \<Rightarrow> Map.empty | Some d \<Rightarrow> d) k \<noteq> None)
        positional_names"
      and total: "\<forall>ge x y. \<exists>s. sinkhorn ge x y
                 (case sinkhorn_kwargs of None \<Rightarrow> Map.empty | Some d \<Rightarrow> d) = Inr s"
    show "\<exists>r. sinkhorn_divergence_wrapper sinkhorn prepare_divergences a b args
                      sinkhorn_kwargs static_b kwargs = Inr r"
    proof (rule wrapper_returns)
      show "prepare_divergences args static_b kwargs = Inr gs"
        by (rule assms)
      show "\<not> list_ex
        (\<lambda>k. (case sinkhorn_kwargs of None \<Rightarrow> Map.empty | Some d \<Rightarrow> d) k \<noteq> None)
        positional_names"
        by (rule free)
      show "\<exists>s. sinkhorn ge x y
                 (case sinkhorn_kwargs of None \<Rightarrow> Map.empty | Some d \<Rightarrow> d) = Inr s" for ge x y
        using total by blast
    qed
  qed
qed

theorem wrapper_three_slots_witness:
  "(\<exists>r. sinkhorn_divergence_wrapper
          (\<lambda>ge x y kw. Inr \<lparr>f = Some x, g = Some y, reg_ot_cost = ge,
                             SinkhornOutput.errors = Some x\<rparr>)
          (\<lambda>args static_b kw. Inr (map Some args))
          (1::nat) 2 [7, 2, 4, 9, 11 :: real] (None :: (string \<rightharpoonup> real) option) False ()
        = Inr r
      \<and> geoms r = [Some 7, Some 2, Some 4]
      \<and> length (potentials r) = 3 \<and> length (errors r) = 3)
   \<and> (\<exists>r. sinkhorn_divergence_wrapper
          (\<lambda>ge x y kw. Inr \<lparr>f = Some x, g = Some y, reg_ot_cost = ge,
                             SinkhornOutput.errors = Some x\<rparr>)
          (\<lambda>args static_b kw. Inr (map Some args))
          (1::nat) 2 [7, 2 :: real] (None :: (string \<rightharpoonup> real) option) False ()
        = Inr r
      \<and> geoms r = [Some 7, Some 2, None]
      \<and> length (potentials r) = 3 \<and> length (errors r) = 3)"
proof -
  let ?solver = "\<lambda>(ge::real) (x::nat) (y::nat) (kw :: string \<rightharpoonup> real).
      (Inr \<lparr>f = Some x, g = Some y, reg_ot_cost = ge,
            SinkhornOutput.errors = Some x\<rparr> :: error + nat SinkhornOutput)"
  let ?prep = "\<lambda>(args :: real list) (static_b :: bool) (kw :: unit).
      (Inr (map Some args) :: error + real option list)"
  let ?none = "None :: (string \<rightharpoonup> real) option"
  have free: "\<not> list_ex (\<lambda>k. (case ?none of None \<Rightarrow> Map.empty | Some d \<Rightarrow> d) k \<noteq> None)
                 positional_names
              \<and> (\<forall>ge x y. \<exists>s. ?solver ge x y
                    (case ?none of None \<Rightarrow> Map.empty | Some d \<Rightarrow> d) = Inr s)"
    by (simp add: positional_names_def)
  have p5: "?prep [7, 2, 4, 9, 11] False () = Inr [Some 7, Some 2, Some 4, Some 9, Some 11]"
    by simp
  have p2: "?prep [7, 2] False () = Inr [Some 7, Some 2]"
    by simp
  note five = wrapper_three_slots [where sinkhorn = ?solver and a = 1 and b = 2
      and sinkhorn_kwargs = ?none and prepare_divergences = ?prep
      and args = "[7, 2, 4, 9, 11]" and static_b = False and kwargs = "()"
      and gs = "[Some 7, Some 2, Some 4, Some 9, Some 11]", OF p5]
  note two = wrapper_three_slots [where sinkhorn = ?solver and a = 1 and b = 2
      and sinkhorn_kwargs = ?none and prepare_divergences = ?prep
      and args = "[7, 2]" and static_b = False and kwargs = "()"
      and gs = "[Some 7, Some 2]", OF p2]
  from five free obtain r5 where
    r5: "sinkhorn_divergence_wrapper ?solver ?prep 1 2 [7, 2, 4, 9, 11] ?none False () = Inr r5"
    by blast
  with five have s5: "geoms r5 = [Some 7, Some 2, Some 4]
      \<and> length (potentials r5) = 3 \<and> length (errors r5) = 3"
    by simp
  from two free obtain r2 where
    r2: "sinkhorn_divergence_wrapper ?solver ?prep 1 2 [7, 2] ?none False () = Inr r2"
    by blast
  with two have s2: "geoms r2 = [Some 7, Some 2, None]
      \<and> length (potentials r2) = 3 \<and> length (errors r2) = 3"
    by simp
  from r5 s5 r2 s2 show ?thesis
    by blast
qed

text \<open>
  C4. For every solver, a call on three geometries is the sequence of three solver calls:
  on the XY geometry with marginals \<open>(a, b)\<close>, on the XX geometry with \<open>(a, a)\<close>, on the YY
  geometry with \<open>(b, b)\<close>, each with the same \<open>kwargs\<close>; the first exception ends the
  call, and the result is built from the three outputs.
\<close>

theorem three_solves:
  "sinkhorn_divergence sinkhorn (Some gxy) (Some gxx) (Some gyy) a b kwargs =
     (case sinkhorn gxy a b kwargs of
        Inl e \<Rightarrow> Inl e
      | Inr s0 \<Rightarrow>
          (case sinkhorn gxx a a kwargs of
             Inl e \<Rightarrow> Inl e
           | Inr s1 \<Rightarrow>
               (case sinkhorn gyy b b kwargs of
                  Inl e \<Rightarrow> Inl e
                | Inr s2 \<Rightarrow>
                    Inr \<lparr>divergence = reg_ot_cost s0 - (reg_ot_cost s1 + reg_ot_cost s2) / 2,
                         potentials = [[f s0, g s0], [f s1, g s1], [f s2, g s2]],
                         geoms = [Some gxy, Some gxx, Some gyy],
                         errors = [SinkhornOutput.errors s0, SinkhornOutput.errors s1,
                                   SinkhornOutput.errors s2]\<rparr>)))"
  by (simp add: sinkhorn_divergence_unfold split: sum.splits)

theorem three_solves_witness:
  "sinkhorn_divergence
      (\<lambda>ge x y kw. Inr \<lparr>f = Some (ge # x @ y), g = Some (case kw ''threshold'' of None \<Rightarrow> [] | Some t \<Rightarrow> [t]),
                         reg_ot_cost = 0, SinkhornOutput.errors = None\<rparr>)
      (Some 7) (Some 2) (Some 4) [1::nat] [3] [''threshold'' \<mapsto> 5]
     = Inr \<lparr>divergence = 0,
            potentials = [[Some [7, 1, 3], Some [5]], [Some [2, 1, 1], Some [5]],
                          [Some [4, 3, 3], Some [5]]],
            geoms = [Some 7, Some 2, Some 4],
            errors = [None, None, None]\<rparr>"
  using three_solves
    [of "\<lambda>ge x y kw. Inr \<lparr>f = Some (ge # x @ y), g = Some (case kw ''threshold'' of None \<Rightarrow> [] | Some t \<Rightarrow> [t]),
                         reg_ot_cost = 0, SinkhornOutput.errors = None\<rparr>"
        7 2 4 "[1::nat]" "[3]" "[''threshold'' \<mapsto> 5]"]
  by simp

text \<open>
  C5. When the three geometries coincide and \<open>a = b\<close>, and the solve returns,
  \<open>sinkhorn_divergence\<close> returns and the divergence is \<open>0\<close>: the three solves are the same
  call, and \<open>c - (c + c) / 2 = 0\<close> (exactly, in the real arithmetic of the model).
\<close>

theorem self_divergence_zero:
  assumes "sinkhorn ge a a kwargs = Inr s"
  shows "\<exists>r. sinkhorn_divergence sinkhorn (Some ge) (Some ge) (Some ge) a a kwargs = Inr r
           \<and> divergence r = 0"
  using assms by (simp add: sinkhorn_divergence_unfold)

theorem self_divergence_zero_witness:
  "\<exists>r. sinkhorn_divergence
          (\<lambda>ge x y kw. Inr \<lparr>f = Some x, g = Some y, reg_ot_cost = ge + real x * real y,
                             SinkhornOutput.errors = None\<rparr>)
          (Some 7) (Some 7) (Some 7) (3::nat) 3 (Map.empty :: string \<rightharpoonup> real) = Inr r
        \<and> divergence r = 0"
  using self_divergence_zero
    [of "\<lambda>ge x y kw. Inr \<lparr>f = Some x, g = Some y, reg_ot_cost = ge + real x * real y,
                             SinkhornOutput.errors = None\<rparr>"
        7 "3::nat" "Map.empty :: string \<rightharpoonup> real"
        "\<lparr>f = Some 3, g = Some 3, reg_ot_cost = 16, SinkhornOutput.errors = None\<rparr>"]
  by simp

text \<open>
  C6. Take a call that returns \<open>r\<close>, under a fixed solver configuration. Any returning
  call with the same \<open>geometry_xy\<close>, \<open>a\<close> and \<open>b\<close> has the same XY potentials and error
  trace as \<open>r\<close>, whatever its other two geometries; any returning call with the same
  \<open>geometry_xx\<close> and \<open>a\<close> has the same XX potentials and error trace, whatever its
  \<open>geometry_xy\<close>, \<open>geometry_yy\<close> and \<open>b\<close>; any returning call with the same
  \<open>geometry_yy\<close> and \<open>b\<close> has the same YY potentials and error trace.
\<close>

theorem sub_solves_independent:
  assumes "sinkhorn_divergence sinkhorn gxy gxx gyy a b kwargs = Inr r"
    and "sinkhorn_divergence sinkhorn gxy gxx1 gyy1 a b kwargs = Inr rc"
    and "sinkhorn_divergence sinkhorn gxy2 gxx gyy2 a b2 kwargs = Inr rx"
    and "sinkhorn_divergence sinkhorn gxy3 gxx3 gyy a3 b kwargs = Inr ry"
  shows "potentials rc ! 0 = potentials r ! 0 \<and> errors rc ! 0 = errors r ! 0
       \<and> potentials rx ! 1 = potentials r ! 1 \<and> errors rx ! 1 = errors r ! 1
       \<and> potentials ry ! 2 = potentials r ! 2 \<and> errors ry ! 2 = errors r ! 2"
proof -
  have "potentials rc ! 0 = potentials r ! 0 \<and> errors rc ! 0 = errors r ! 0"
    using assms(1,2) by (auto elim!: sinkhorn_divergence_InrD)
  moreover have "potentials rx ! 1 = potentials r ! 1 \<and> errors rx ! 1 = errors r ! 1"
    using assms(1,3) by (auto elim!: sinkhorn_divergence_InrD)
  moreover have "potentials ry ! 2 = potentials r ! 2 \<and> errors ry ! 2 = errors r ! 2"
    using assms(1,4) by (auto elim!: sinkhorn_divergence_InrD)
  ultimately show ?thesis
    by simp
qed

theorem sub_solves_independent_witness:
  "\<exists>r rc rx ry.
     sinkhorn_divergence
        (\<lambda>ge x y kw. Inr \<lparr>f = Some (ge # x), g = Some (ge # y), reg_ot_cost = 0,
                           SinkhornOutput.errors = Some (x @ y)\<rparr>)
        (Some 7) (Some 2) (Some 4) [1::nat] [3] (Map.empty :: string \<rightharpoonup> real) = Inr r
   \<and> sinkhorn_divergence
        (\<lambda>ge x y kw. Inr \<lparr>f = Some (ge # x), g = Some (ge # y), reg_ot_cost = 0,
                           SinkhornOutput.errors = Some (x @ y)\<rparr>)
        (Some 7) (Some 9) None [1::nat] [3] (Map.empty :: string \<rightharpoonup> real) = Inr rc
   \<and> sinkhorn_divergence
        (\<lambda>ge x y kw. Inr \<lparr>f = Some (ge # x), g = Some (ge # y), reg_ot_cost = 0,
                           SinkhornOutput.errors = Some (x @ y)\<rparr>)
        None (Some 2) (Some 8) [1::nat] [5] (Map.empty :: string \<rightharpoonup> real) = Inr rx
   \<and> sinkhorn_divergence
        (\<lambda>ge x y kw. Inr \<lparr>f = Some (ge # x), g = Some (ge # y), reg_ot_cost = 0,
                           SinkhornOutput.errors = Some (x @ y)\<rparr>)
        (Some 6) None (Some 4) [2::nat] [3] (Map.empty :: string \<rightharpoonup> real) = Inr ry
   \<and> potentials rc ! 0 = potentials r ! 0 \<and> errors rc ! 0 = errors r ! 0
   \<and> potentials rx ! 1 = potentials r ! 1 \<and> errors rx ! 1 = errors r ! 1
   \<and> potentials ry ! 2 = potentials r ! 2 \<and> errors ry ! 2 = errors r ! 2
   \<and> potentials r = [[Some [7, 1], Some [7, 3]], [Some [2, 1], Some [2, 1]],
                       [Some [4, 3], Some [4, 3]]]"
proof -
  let ?solver = "\<lambda>(ge::nat) (x::nat list) (y::nat list) (kw :: string \<rightharpoonup> real).
      (Inr \<lparr>f = Some (ge # x), g = Some (ge # y), reg_ot_cost = 0,
            SinkhornOutput.errors = Some (x @ y)\<rparr> :: error + nat list SinkhornOutput)"
  obtain r where r: "sinkhorn_divergence ?solver (Some 7) (Some 2) (Some 4) [1] [3] Map.empty = Inr r"
    and pr: "potentials r = [[Some [7, 1], Some [7, 3]], [Some [2, 1], Some [2, 1]],
                       [Some [4, 3], Some [4, 3]]]"
    by (simp add: sinkhorn_divergence_unfold)
  obtain rc where rc: "sinkhorn_divergence ?solver (Some 7) (Some 9) None [1] [3] Map.empty = Inr rc"
    by (simp add: sinkhorn_divergence_unfold)
  obtain rx where rx: "sinkhorn_divergence ?solver None (Some 2) (Some 8) [1] [5] Map.empty = Inr rx"
    by (simp add: sinkhorn_divergence_unfold)
  obtain ry where ry: "sinkhorn_divergence ?solver (Some 6) None (Some 4) [2] [3] Map.empty = Inr ry"
    by (simp add: sinkhorn_divergence_unfold)
  from sub_solves_independent [OF r rc rx ry] r rc rx ry pr show ?thesis
    by blast
qed

section \<open>Symmetry of the regularized OT cost\<close>


lemma coupling_pos: "0 < coupling eps C phi psi i j"
  by (simp add: coupling_def)

text \<open>The error is zero exactly when both marginal constraints hold with equality.\<close>

lemma marginal_error_zero_iff:
  "marginal_error eps C a b phi psi = 0 \<longleftrightarrow>
     (\<forall>i<length a. (\<Sum>j<length b. coupling eps C phi psi i j) = a ! i) \<and>
     (\<forall>j<length b. (\<Sum>i<length a. coupling eps C phi psi i j) = b ! j)"
proof -
  let ?r = "\<lambda>i. \<bar>(\<Sum>j<length b. coupling eps C phi psi i j) - a ! i\<bar>"
  let ?c = "\<lambda>j. \<bar>(\<Sum>i<length a. coupling eps C phi psi i j) - b ! j\<bar>"
  have rn: "0 \<le> (\<Sum>i<length a. ?r i)" and cn: "0 \<le> (\<Sum>j<length b. ?c j)"
    by (simp_all add: sum_nonneg)
  have "marginal_error eps C a b phi psi = 0
          \<longleftrightarrow> (\<Sum>i<length a. ?r i) = 0 \<and> (\<Sum>j<length b. ?c j) = 0"
    unfolding marginal_error_def using rn cn by linarith
  also have "(\<Sum>i<length a. ?r i) = 0 \<longleftrightarrow> (\<forall>i<length a. ?r i = 0)"
    by (subst sum_nonneg_eq_0_iff) auto
  also have "(\<Sum>j<length b. ?c j) = 0 \<longleftrightarrow> (\<forall>j<length b. ?c j = 0)"
    by (subst sum_nonneg_eq_0_iff) auto
  finally show ?thesis
    by simp
qed

text \<open>
  What exact convergence needs of the weights: every weight is positive, and the two
  weight vectors have the same total.
\<close>

lemma converged_positive:
  assumes "marginal_error eps C a b phi psi = 0" and "0 < length a" and "0 < length b"
  shows "(\<forall>i<length a. 0 < a ! i) \<and> (\<forall>j<length b. 0 < b ! j)"
proof (intro conjI allI impI)
  fix i assume i: "i < length a"
  have "0 < (\<Sum>j<length b. coupling eps C phi psi i j)"
    using assms(3) by (intro sum_pos) (auto simp: coupling_pos lessThan_empty_iff)
  with assms(1) i show "0 < a ! i"
    by (simp add: marginal_error_zero_iff)
next
  fix j assume j: "j < length b"
  have "0 < (\<Sum>i<length a. coupling eps C phi psi i j)"
    using assms(2) by (intro sum_pos) (auto simp: coupling_pos lessThan_empty_iff)
  with assms(1) j show "0 < b ! j"
    by (simp add: marginal_error_zero_iff)
qed

lemma converged_balanced:
  assumes "marginal_error eps C a b phi psi = 0"
  shows "(\<Sum>i<length a. a ! i) = (\<Sum>j<length b. b ! j)"
proof -
  have "(\<Sum>i<length a. a ! i) = (\<Sum>i<length a. \<Sum>j<length b. coupling eps C phi psi i j)"
    using assms by (simp add: marginal_error_zero_iff)
  also have "\<dots> = (\<Sum>j<length b. \<Sum>i<length a. coupling eps C phi psi i j)"
    by (rule sum.swap)
  also have "\<dots> = (\<Sum>j<length b. b ! j)"
    using assms by (simp add: marginal_error_zero_iff)
  finally show ?thesis .
qed

text \<open>Potentials with error zero are a fixed point of the two half steps.\<close>

lemma coupling_split_g:
  "coupling eps C phi psi i j = exp ((phi ! i - C i j) / eps) * exp (psi ! j / eps)"
  by (simp add: coupling_def exp_add [symmetric] diff_divide_distrib)

lemma coupling_split_f:
  "coupling eps C phi psi i j = exp ((psi ! j - C i j) / eps) * exp (phi ! i / eps)"
  by (simp add: coupling_def exp_add [symmetric] diff_divide_distrib)

lemma converged_fixed_point:
  assumes eps: "0 < eps"
    and met: "marginal_error eps C a b phi psi = 0"
    and len: "length phi = length a" "length psi = length b"
    and ne: "0 < length a" "0 < length b"
  shows "update_g eps C a b phi = psi \<and> update_f eps C a b psi = phi"
proof (rule conjI)
  show "update_g eps C a b phi = psi"
  proof (rule nth_equalityI)
    show "length (update_g eps C a b phi) = length psi"
      by (simp add: update_g_def len)
  next
    fix j assume "j < length (update_g eps C a b phi)"
    then have j: "j < length b"
      by (simp add: update_g_def)
    let ?S = "\<Sum>i<length a. exp ((phi ! i - C i j) / eps)"
    have S: "0 < ?S"
      using ne(1) by (intro sum_pos) (auto simp: lessThan_empty_iff)
    have "b ! j = (\<Sum>i<length a. coupling eps C phi psi i j)"
      using met j by (simp add: marginal_error_zero_iff)
    also have "\<dots> = ?S * exp (psi ! j / eps)"
      by (simp add: coupling_split_g sum_distrib_right)
    finally have "ln (b ! j) = ln ?S + psi ! j / eps"
      using S by (simp add: ln_mult_pos)
    then have "eps * (ln (b ! j) - ln ?S) = psi ! j"
      using eps by simp
    with j show "update_g eps C a b phi ! j = psi ! j"
      by (simp add: update_g_def)
  qed
next
  show "update_f eps C a b psi = phi"
  proof (rule nth_equalityI)
    show "length (update_f eps C a b psi) = length phi"
      by (simp add: update_f_def len)
  next
    fix i assume "i < length (update_f eps C a b psi)"
    then have i: "i < length a"
      by (simp add: update_f_def)
    let ?S = "\<Sum>j<length b. exp ((psi ! j - C i j) / eps)"
    have S: "0 < ?S"
      using ne(2) by (intro sum_pos) (auto simp: lessThan_empty_iff)
    have "a ! i = (\<Sum>j<length b. coupling eps C phi psi i j)"
      using met i by (simp add: marginal_error_zero_iff)
    also have "\<dots> = ?S * exp (phi ! i / eps)"
      by (simp add: coupling_split_f sum_distrib_right)
    finally have "ln (a ! i) = ln ?S + phi ! i / eps"
      using S by (simp add: ln_mult_pos)
    then have "eps * (ln (a ! i) - ln ?S) = phi ! i"
      using eps by simp
    with i show "update_f eps C a b psi ! i = phi ! i"
      by (simp add: update_f_def)
  qed
qed


























section \<open>Properties of the plotting utilities\<close>

lemma open_images_only_opens:
  "open_images (ext\<lparr>warnings_warn := wn, Image_save := sv\<rparr>) image_fns w
     = open_images ext image_fns w"
  by (induction image_fns arbitrary: w) (simp_all split: prod.splits sum.splits)

text \<open>
  C9. When \<open>x\<close> is a matrix (its shape has a second entry) with fewer than three columns,
  \<open>bidimensional\<close> returns the pair \<open>(x, y)\<close> as it received it: none of the array
  operations is applied.
\<close>

theorem bidimensional_low_dim:
  assumes "1 < length (shape np x)" and "shape np x ! 1 < 3"
  shows "bidimensional np x y = Inr (x, y)"
  using assms by (simp add: bidimensional_def)

theorem bidimensional_low_dim_witness:
  "1 < length [5, 2 :: nat] \<and> [5, 2 :: nat] ! 1 < 3
   \<and> bidimensional
        \<lparr>shape = (\<lambda>a. a), concatenate = (\<lambda>as axis. Inl TypeError),
         svds = (\<lambda>m k. Inl TypeError), multiply = (\<lambda>u s. Inl TypeError),
         rows_to = (\<lambda>p k. p), rows_from = (\<lambda>p k. p)\<rparr>
        [5, 2] [6, 2] = Inr ([5, 2], [6, 2])"
  using bidimensional_low_dim
    [of "\<lparr>shape = (\<lambda>a. a), concatenate = (\<lambda>as axis. Inl TypeError),
         svds = (\<lambda>m k. Inl TypeError), multiply = (\<lambda>u s. Inl TypeError),
         rows_to = (\<lambda>p k. p), rows_from = (\<lambda>p k. p)\<rparr>" "[5, 2]" "[6, 2]"]
  by simp

text \<open>
  C10. When PIL is not importable, a call of \<open>animate\<close> is the one call of
  \<^verbatim>\<open>warnings.warn\<close> with category \<^verbatim>\<open>RuntimeWarning\<close>: it has the outcome of that call (the
  value \<^verbatim>\<open>None\<close> when the warning is issued and not raised) and leaves the world as that
  call leaves it, whatever \<^verbatim>\<open>Image.open\<close> and \<^verbatim>\<open>Image.save\<close> would do: neither is
  called.
\<close>

theorem animate_without_pil:
  "animate False (ext\<lparr>Image_open := op, Image_save := sv\<rparr>) image_fns gif_fn duration_arg
       loop_arg w =
     warnings_warn ext ''Pillow was not imported successfully. Doing nothing instead.''
       RuntimeWarning w"
  by (simp add: animate_def)

theorem animate_without_pil_witness:
  "animate False
     \<lparr>warnings_warn = (\<lambda>msg cat w. (Inr (), w @ [''warn RuntimeWarning: '' @ msg])),
      Image_open = (\<lambda>fn w. (Inr fn, w @ [''open: '' @ fn])),
      Image_save = (\<lambda>im kw w. (Inr (), w @ [''save: '' @ fp kw]))\<rparr>
     [''a.png'', ''b.png''] ''out.gif'' 250 0 []
   = (Inr (),
      [''warn RuntimeWarning: Pillow was not imported successfully. Doing nothing instead.''])"
  using animate_without_pil
    [where ext = "\<lparr>warnings_warn = (\<lambda>msg cat w. (Inr (), w @ [''warn RuntimeWarning: '' @ msg])),
      Image_open = (\<lambda>fn w. (Inr fn, w @ [''open: '' @ fn])),
      Image_save = (\<lambda>im kw w. (Inr (), w @ [''save: '' @ fp kw]))\<rparr>"
      and op = "\<lambda>fn w. (Inr fn, w @ [''open: '' @ fn])"
      and sv = "\<lambda>im kw w. (Inr (), w @ [''save: '' @ fp kw])"
      and image_fns = "[''a.png'', ''b.png'']" and gif_fn = "''out.gif''"
      and duration_arg = 250 and loop_arg = 0 and w = "[]"]
  by simp

text \<open>
  C8. Two calls of \<open>animate\<close> that differ only in \<open>loop\<close> have the same outcome and leave
  the same world; and when PIL is importable and the images open, the call is exactly
  the one \<^verbatim>\<open>save\<close> of the first image with \<^verbatim>\<open>loop=0\<close>.
\<close>

theorem animate_ignores_loop:
  "animate PIL_is_importable ext image_fns gif_fn duration_arg loop1 w
     = animate PIL_is_importable ext image_fns gif_fn duration_arg loop2 w
   \<and> (open_images ext image_fns w = (Inr (im # rest), w1) \<longrightarrow>
        animate True ext image_fns gif_fn duration_arg loop1 w
          = Image_save ext im \<lparr>fp = gif_fn, save_all = True, append_images = rest,
                               duration = duration_arg, loop = 0\<rparr> w1)"
  by (simp add: animate_def)

theorem animate_ignores_loop_witness:
  "open_images
     \<lparr>warnings_warn = (\<lambda>msg cat w. (Inr (), w)),
      Image_open = (\<lambda>fn w. (Inr fn, w)),
      Image_save = (\<lambda>im kw w. (Inr (),
         w @ [(fp kw, im # append_images kw, duration kw, loop kw)]))\<rparr>
     [''a.png'', ''b.png''] [] = (Inr [''a.png'', ''b.png''], [])
   \<and> animate True
     \<lparr>warnings_warn = (\<lambda>msg cat w. (Inr (), w)),
      Image_open = (\<lambda>fn w. (Inr fn, w)),
      Image_save = (\<lambda>im kw w. (Inr (),
         w @ [(fp kw, im # append_images kw, duration kw, loop kw)]))\<rparr>
     [''a.png'', ''b.png''] ''out.gif'' 250 5 []
   = (Inr (), [(''out.gif'', [''a.png'', ''b.png''], 250, 0)])
   \<and> animate True
     \<lparr>warnings_warn = (\<lambda>msg cat w. (Inr (), w)),
      Image_open = (\<lambda>fn w. (Inr fn, w)),
      Image_save = (\<lambda>im kw w. (Inr (),
         w @ [(fp kw, im # append_images kw, duration kw, loop kw)]))\<rparr>
     [''a.png'', ''b.png''] ''out.gif'' 250 3 []
   = (Inr (), [(''out.gif'', [''a.png'', ''b.png''], 250, 0)])"
proof -
  let ?ext = "\<lparr>warnings_warn = (\<lambda>(msg::string) (cat::category) (w :: (string \<times> string list \<times> int \<times> int) list). (Inr (), w) :: (error + unit) \<times> _),
      Image_open = (\<lambda>(fn::string) w. (Inr fn, w)),
      Image_save = (\<lambda>(im::string) kw w. (Inr (),
         w @ [(fp kw, im # append_images kw, duration kw, loop kw)]))\<rparr>"
  have h: "open_images ?ext [''a.png'', ''b.png''] [] = (Inr (''a.png'' # [''b.png'']), [])"
    by simp
  note inst = animate_ignores_loop [of True ?ext "[''a.png'', ''b.png'']" "''out.gif''" 250 5 "[]" 3
      "''a.png''" "[''b.png'']" "[]"]
  have same: "animate True ?ext [''a.png'', ''b.png''] ''out.gif'' 250 5 []
      = animate True ?ext [''a.png'', ''b.png''] ''out.gif'' 250 3 []"
    by (rule conjunct1 [OF inst])
  have "animate True ?ext [''a.png'', ''b.png''] ''out.gif'' 250 5 []
      = Image_save ?ext ''a.png''
          \<lparr>fp = ''out.gif'', save_all = True, append_images = [''b.png''],
           duration = 250, loop = 0\<rparr> []"
    by (rule mp [OF conjunct2 [OF inst] h])
  then have saved: "animate True ?ext [''a.png'', ''b.png''] ''out.gif'' 250 5 []
      = (Inr (), [(''out.gif'', [''a.png'', ''b.png''], 250, 0)])"
    by simp
  have saved': "animate True ?ext [''a.png'', ''b.png''] ''out.gif'' 250 3 []
      = (Inr (), [(''out.gif'', [''a.png'', ''b.png''], 250, 0)])"
    by (rule trans [OF same [symmetric] saved])
  from h saved saved' show ?thesis
    by (intro conjI)
qed

end
